theory Spec2Isabelle
  imports Complex_Main
begin

section \<open>NCFile: a distributed snapshot writer (mpi4py\_fft/utilities/nc\_file.py)\<close>

text \<open>
  The development embeds the class \<open>NCFile\<close> of \<open>nc_file.py\<close>: its constructor and the
  methods \<open>write\<close>, \<open>read\<close>, \<open>_write_group\<close> and \<open>_write_slice_step\<close>.  Every method is a
  function on the explicit state of one writer instance of one worker.  A method returns the
  state it leaves behind together with the exception it raised, if any: a Python exception
  does not undo the mutations made before it.

  Floating-point numbers are idealised as reals.  The methods only copy field data, so no
  rounding is involved there; the synthesised coordinate grid is the one place where the
  code computes with floats, and there the model gives the exact real value.
\<close>

subsection \<open>Exceptions\<close>

datatype error =
    AssertionError
  | TypeError
  | IndexError
  | KeyError
  | AttributeError
  | ValueError
  | NotImplementedError
  | NotFound

subsection \<open>Arrays in memory\<close>

text \<open>A numpy array: its shape and its elements in row-major order.\<close>

record ndarray =
  shape :: "nat list"
  elems :: "real list"

text \<open>
  One entry of a slice specification: an integer index, or \<open>slice(None)\<close>.
  \<open>isinstance(x, slice)\<close> is \<open>is_Whole\<close>.
\<close>

datatype sel = Fixed int | Whole

fun is_Whole :: "sel \<Rightarrow> bool" where
  "is_Whole Whole = True"
| "is_Whole (Fixed k) = False"

text \<open>A slice \<open>slice(start, stop)\<close> with integer bounds, as \<open>local_slice\<close> reports them.\<close>

type_synonym range = "int \<times> int"

definition extent :: "range \<Rightarrow> nat" where
  "extent r = nat (snd r - fst r)"

text \<open>The index tuples of a block of ranges, in row-major order.\<close>

fun block_indices :: "range list \<Rightarrow> int list list" where
  "block_indices [] = [[]]"
| "block_indices (r # rs) =
     concat (map (\<lambda>i. map ((#) i) (block_indices rs)) [fst r .. snd r - 1])"

text \<open>
  Basic numpy indexing \<open>u[sl]\<close> of an array by integers and full slices.  It raises
  \<open>IndexError\<close> for too many indices and for an integer outside \<open>[-n, n)\<close>; a negative
  integer counts from the end; axes without an index are taken whole.
\<close>

fun index_ok :: "nat list \<Rightarrow> sel list \<Rightarrow> bool" where
  "index_ok shp [] = True"
| "index_ok [] (x # xs) = False"
| "index_ok (n # shp) (Whole # xs) = index_ok shp xs"
| "index_ok (n # shp) (Fixed k # xs) = (- int n \<le> k \<and> k < int n \<and> index_ok shp xs)"

fun index_shape :: "nat list \<Rightarrow> sel list \<Rightarrow> nat list" where
  "index_shape shp [] = shp"
| "index_shape [] (x # xs) = []"
| "index_shape (n # shp) (Whole # xs) = n # index_shape shp xs"
| "index_shape (n # shp) (Fixed k # xs) = index_shape shp xs"

fun index_elems :: "nat list \<Rightarrow> sel list \<Rightarrow> real list \<Rightarrow> real list" where
  "index_elems shp [] es = es"
| "index_elems [] (x # xs) es = es"
| "index_elems (n # shp) (Whole # xs) es =
     (let m = prod_list shp
      in concat (map (\<lambda>j. index_elems shp xs (take m (drop (j * m) es))) [0..<n]))"
| "index_elems (n # shp) (Fixed k # xs) es =
     (let m = prod_list shp; j = nat (if k < 0 then k + int n else k)
      in index_elems shp xs (take m (drop (j * m) es)))"

definition getitem :: "ndarray \<Rightarrow> sel list \<Rightarrow> error + ndarray" where
  "getitem u sl =
     (if index_ok (shape u) sl
      then Inr \<lparr>shape = index_shape (shape u) sl, elems = index_elems (shape u) sl (elems u)\<rparr>
      else Inl IndexError)"

text \<open>
  \<open>u[:] = block\<close>: the elements of \<open>block\<close> replace those of \<open>u\<close>.  Only the case of equal
  shapes is modelled; every other case is \<open>ValueError\<close> (numpy would first try to
  broadcast).
\<close>

definition assign_all :: "ndarray \<Rightarrow> ndarray \<Rightarrow> error + ndarray" where
  "assign_all u block =
     (if shape block = shape u then Inr (u\<lparr>elems := elems block\<rparr>) else Inl ValueError)"

subsection \<open>The decomposition object \<open>T\<close>\<close>

text \<open>
  Modelled from the spec: the decomposition object (class \<open>PFFT\<close>) is an external
  collaborator.  It reports the global shape (\<open>T.shape(False)\<close>), the numeric type
  (\<open>T.dtype(False).char\<close>), this worker's local index range per axis
  (\<open>T.local_slice(False)\<close>) and the number of axes (\<open>T.ndim()\<close>).  The writer only reads it.
\<close>

record pfft =
  T_shape :: "nat list"
  T_dtype_char :: char
  T_local_slice :: "range list"
  T_ndim :: nat

subsection \<open>The file store\<close>

text \<open>
  Modelled from the spec: the structured-array file library (netCDF4) is an external
  collaborator; the writer calls \<open>createDimension\<close>, \<open>createVariable\<close>, \<open>set_collective\<close>,
  \<open>setncattr_string\<close>, item assignment and item access on variables, and \<open>sync\<close>.  The model
  keeps what these calls are given: a table of dimensions with their current lengths, a
  table from names to variable objects, the variable objects themselves (a heap, since the
  writer keeps handles to objects that the file also holds by name), and the log of the
  calls made.  Two failures of the store are part of the model, both met by the
  constructor: \<open>createVariable\<close> raises \<open>TypeError\<close> for the extended-precision type (the
  character \<open>g\<close>), which the file format does not have, and assigning to a whole coordinate
  variable an array whose length is not the extent of its dimension raises \<open>ValueError\<close>.
  The other failures of the store (a name already in use, an index outside a fixed
  dimension, a disk that is full) are outside the model: they propagate to the caller
  unmodified.  An assignment at index \<open>i\<close> of an unlimited leading dimension extends that
  dimension to at least \<open>i + 1\<close>; the size of a variable is the product of the current lengths
  of its dimensions; a cell never written reads as the fill value.
\<close>

record ncvar =
  vdims :: "string list"
  vdtype :: char
  vcollective :: bool
  vattrs :: "(string \<times> string) list"
  vcells :: "int list \<rightharpoonup> real"

datatype event =
    EvCreateDimension string "nat option"
  | EvCreateVariable string char "string list"
  | EvSetCollective nat bool
  | EvSetAttr nat string string
  | EvPut nat "int list" "range list"
  | EvSync

record dataset =
  ds_dims :: "string \<rightharpoonup> nat option"
  ds_len :: "string \<Rightarrow> nat"
  ds_vars :: "string \<rightharpoonup> nat"
  ds_heap :: "nat \<Rightarrow> ncvar"
  ds_next :: nat
  ds_log :: "event list"

definition blank_var :: ncvar where
  "blank_var = \<lparr>vdims = [], vdtype = CHR ''d'', vcollective = False, vattrs = [],
                vcells = Map.empty\<rparr>"

definition empty_dataset :: dataset where
  "empty_dataset = \<lparr>ds_dims = Map.empty, ds_len = (\<lambda>_. 0), ds_vars = Map.empty,
                    ds_heap = (\<lambda>_. blank_var), ds_next = 0, ds_log = []\<rparr>"

text \<open>
  \<open>Dataset(ncname, mode=mode, ...)\<close>: mode \<open>'w'\<close> starts a new, empty file; every other mode
  opens what is on disk.
\<close>

definition Dataset :: "string \<Rightarrow> dataset \<Rightarrow> dataset" where
  "Dataset mode disk = (if mode = ''w'' then empty_dataset else disk)"

text \<open>The numeric types the file format can hold, among those the constructor lets through.\<close>

definition store_type_ok :: "char \<Rightarrow> bool" where
  "store_type_ok c \<longleftrightarrow> c \<noteq> CHR ''g''"

definition createDimension :: "string \<Rightarrow> nat option \<Rightarrow> dataset \<Rightarrow> dataset" where
  "createDimension name sz ds =
     ds\<lparr>ds_dims := (ds_dims ds)(name \<mapsto> sz),
        ds_len := (ds_len ds)(name := (case sz of None \<Rightarrow> 0 | Some n \<Rightarrow> n)),
        ds_log := ds_log ds @ [EvCreateDimension name sz]\<rparr>"

definition createVariable :: "string \<Rightarrow> char \<Rightarrow> string list \<Rightarrow> dataset \<Rightarrow> nat \<times> dataset" where
  "createVariable name c dnames ds =
     (let a = ds_next ds
      in (a, ds\<lparr>ds_vars := (ds_vars ds)(name \<mapsto> a),
                 ds_heap := (ds_heap ds)(a := \<lparr>vdims = dnames, vdtype = c, vcollective = False,
                                              vattrs = [], vcells = Map.empty\<rparr>),
                 ds_next := Suc a,
                 ds_log := ds_log ds @ [EvCreateVariable name c dnames]\<rparr>))"

definition set_collective :: "nat \<Rightarrow> bool \<Rightarrow> dataset \<Rightarrow> dataset" where
  "set_collective a b ds =
     ds\<lparr>ds_heap := (ds_heap ds)(a := (ds_heap ds a)\<lparr>vcollective := b\<rparr>),
        ds_log := ds_log ds @ [EvSetCollective a b]\<rparr>"

definition setncattr_string :: "nat \<Rightarrow> string \<Rightarrow> string \<Rightarrow> dataset \<Rightarrow> dataset" where
  "setncattr_string a k v ds =
     ds\<lparr>ds_heap := (ds_heap ds)(a := (ds_heap ds a)\<lparr>vattrs := vattrs (ds_heap ds a) @ [(k, v)]\<rparr>),
        ds_log := ds_log ds @ [EvSetAttr a k v]\<rparr>"

definition sync :: "dataset \<Rightarrow> dataset" where
  "sync ds = ds\<lparr>ds_log := ds_log ds @ [EvSync]\<rparr>"

text \<open>The size of a variable: the product of the current lengths of its dimensions.\<close>

definition var_size :: "dataset \<Rightarrow> nat \<Rightarrow> nat" where
  "var_size ds a = prod_list (map (ds_len ds) (vdims (ds_heap ds a)))"

text \<open>
  \<open>var[i1, ..., ik, r1, ..., rm] = block\<close> on the variable object at address \<open>a\<close>: the leading
  integers \<open>lead\<close> and the ranges \<open>rs\<close> address the cells, which take the elements of the
  block in row-major order.
\<close>

definition grow :: "dataset \<Rightarrow> string list \<Rightarrow> int list \<Rightarrow> string \<Rightarrow> nat" where
  "grow ds dnames lead =
     (case (dnames, lead) of
        (d # _, i # _) \<Rightarrow>
          (if ds_dims ds d = Some None
           then (ds_len ds)(d := max (ds_len ds d) (nat (i + 1)))
           else ds_len ds)
      | _ \<Rightarrow> ds_len ds)"

definition var_setitem :: "nat \<Rightarrow> int list \<Rightarrow> range list \<Rightarrow> ndarray \<Rightarrow> dataset \<Rightarrow> dataset" where
  "var_setitem a lead rs block ds =
     (let v = ds_heap ds a;
          keys = map ((@) lead) (block_indices rs)
      in ds\<lparr>ds_heap := (ds_heap ds)(a := v\<lparr>vcells := vcells v ++ map_of (zip keys (elems block))\<rparr>),
            ds_len := grow ds (vdims v) lead,
            ds_log := ds_log ds @ [EvPut a lead rs]\<rparr>)"

definition default_fillval :: real where
  "default_fillval = 9969209968386869 * 10 ^ 21"

definition var_getitem :: "dataset \<Rightarrow> nat \<Rightarrow> int list \<Rightarrow> range list \<Rightarrow> ndarray" where
  "var_getitem ds a lead rs =
     \<lparr>shape = map extent rs,
      elems = map (\<lambda>idx. case vcells (ds_heap ds a) (lead @ idx) of
                            None \<Rightarrow> default_fillval | Some x \<Rightarrow> x) (block_indices rs)\<rparr>"

text \<open>\<open>f[dset]\<close>: the variable object of that name.\<close>

definition dataset_getitem :: "dataset \<Rightarrow> string \<Rightarrow> error + nat" where
  "dataset_getitem ds name = (case ds_vars ds name of None \<Rightarrow> Inl NotFound | Some a \<Rightarrow> Inr a)"

subsection \<open>The base class \<open>FileBase\<close>\<close>

text \<open>Python's \<open>str\<close> of an integer, and \<open>sep.join(xs)\<close>.\<close>

fun str_nat :: "nat \<Rightarrow> string" where
  "str_nat n =
     (if n < 10 then [char_of (48 + n)] else str_nat (n div 10) @ [char_of (48 + n mod 10)])"

declare str_nat.simps [simp del]

definition str_int :: "int \<Rightarrow> string" where
  "str_int k = (if k < 0 then ''-'' @ str_nat (nat (- k)) else str_nat (nat k))"

fun join :: "string \<Rightarrow> string list \<Rightarrow> string" where
  "join sep [] = []"
| "join sep [x] = x"
| "join sep (x # y # ys) = x @ sep @ join sep (y # ys)"

text \<open>\<open>repr\<close> of one entry of a slice specification and \<open>str\<close> of the list of them.\<close>

fun repr_sel :: "sel \<Rightarrow> string" where
  "repr_sel (Fixed k) = str_int k"
| "repr_sel Whole = ''slice(None, None, None)''"

definition str_slices :: "sel list \<Rightarrow> string" where
  "str_slices xs = ''['' @ join '', '' (map repr_sel xs) @ '']''"

text \<open>
  Modelled from the spec: \<open>FileBase._get_slice_name\<close> (file\_base.py is not part of the
  sources at hand).  The name lists, for each axis, either the literal fixed index or a
  wildcard marker, joined by a fixed separator.  The spec leaves the marker and the
  separator open; they are fixed here to \<open>slice\<close> and \<open>_\<close>.
\<close>

definition wildcard_marker :: string where
  "wildcard_marker = ''slice''"

definition name_separator :: string where
  "name_separator = ''_''"

fun slice_token :: "sel \<Rightarrow> string" where
  "slice_token (Fixed k) = str_int k"
| "slice_token Whole = wildcard_marker"

definition get_slice_name :: "sel list \<Rightarrow> string" where
  "get_slice_name slices = join name_separator (map slice_token slices)"

text \<open>
  Modelled from the spec: \<open>FileBase._get_local_slices\<close>, the slice mapper.  For a fixed index
  \<open>k\<close> on axis \<open>i\<close> the selector contributes the local offset \<open>k - local_start[i]\<close> if
  \<open>local_start[i] \<le> k < local_stop[i]\<close>; else the axis contributes nothing (its entry stays
  as it is) and \<open>inside\<close> is false.  For a whole-axis entry the selector is the full local
  range.  \<open>inside\<close> is true iff every fixed axis falls within the worker's local range.
  Entries beyond the last local range stay as they are.
\<close>

fun get_local_slices :: "sel list \<Rightarrow> range list \<Rightarrow> sel list \<times> bool" where
  "get_local_slices [] s = ([], True)"
| "get_local_slices (x # xs) [] = (x # xs, True)"
| "get_local_slices (Whole # xs) (r # rs) =
     (let (ys, inside) = get_local_slices xs rs in (Whole # ys, inside))"
| "get_local_slices (Fixed k # xs) (r # rs) =
     (let (ys, inside) = get_local_slices xs rs
      in if fst r \<le> k \<and> k < snd r then (Fixed (k - fst r) # ys, inside)
         else (Fixed k # ys, False))"

subsection \<open>The writer instance\<close>

text \<open>
  The attributes of an \<open>NCFile\<close> object.  \<open>self.dims\<close>, \<open>self.nc_t\<close> and \<open>self.handles\<close> are set
  only when the file is opened with mode \<open>'w'\<close>; reading an attribute that was never set
  raises \<open>AttributeError\<close>.  \<open>self.nc_t\<close> and the values of \<open>self.handles\<close> are references
  to variable objects of the file.
\<close>

record ncfile =
  self_f :: dataset
  self_T :: pfft
  self_N :: "nat list"
  self_dtype :: char
  self_dims :: "string list option"
  self_nc_t :: "nat option"
  self_handles :: "(string \<rightharpoonup> nat) option"

text \<open>A domain entry: a tuple such as \<open>(origin, length)\<close>, or an array of coordinates.\<close>

datatype dom_entry = Tuple "real list" | Array "real list"

fun is_Array :: "dom_entry \<Rightarrow> bool" where
  "is_Array (Array xs) = True"
| "is_Array (Tuple xs) = False"

fun entry_values :: "dom_entry \<Rightarrow> real list" where
  "entry_values (Array xs) = xs"
| "entry_values (Tuple xs) = xs"

definition as_array :: "dom_entry \<Rightarrow> ndarray" where
  "as_array e = \<lparr>shape = [length (entry_values e)], elems = entry_values e\<rparr>"

text \<open>\<open>np.arange(n, dtype=np.float)*2*np.pi/n\<close>\<close>

definition uniform_grid :: "nat \<Rightarrow> real list" where
  "uniform_grid n = map (\<lambda>i. real i * 2 * pi / real n) [0..<n]"

text \<open>
  Lines 65-66: \<open>for i in range(len(domain)): d[i] = ...N[i]...\<close>.  The loop only rebinds
  the entries of the local list \<open>d\<close>; it raises \<open>IndexError\<close> at the first \<open>i\<close> that \<open>N\<close>
  does not have.
\<close>

definition synth_coords :: "nat list \<Rightarrow> nat \<Rightarrow> error + dom_entry list" where
  "synth_coords N n =
     (if n \<le> length N then Inr (map (\<lambda>i. Array (uniform_grid (N ! i))) [0..<n])
      else Inl IndexError)"

text \<open>
  Lines 68-73: one dimension and one coordinate variable per entry of \<open>d\<close>.  Line 69 raises
  \<open>KeyError\<close> beyond the third entry, line 70 \<open>IndexError\<close> at an \<open>i\<close> that \<open>N\<close> does not have, and
  the assignment of line 73 \<open>ValueError\<close> when the entry does not have \<open>N[i]\<close> values (the
  broadcasting of a single value is not modelled).
\<close>

fun create_axes ::
  "nat list \<Rightarrow> char \<Rightarrow> dom_entry list \<Rightarrow> nat \<Rightarrow> dataset \<times> string list
     \<Rightarrow> error + dataset \<times> string list" where
  "create_axes N c [] i (ds, dims) = Inr (ds, dims)"
| "create_axes N c (e # es) i (ds, dims) =
     (if 3 \<le> i then Inl KeyError
      else if length N \<le> i then Inl IndexError
      else if length (entry_values e) \<noteq> N ! i then Inl ValueError
      else
        let xyz = [''x'', ''y'', ''z''] ! i;
            ds1 = createDimension xyz (Some (N ! i)) ds;
            (a, ds2) = createVariable xyz c [xyz] ds1;
            ds3 = var_setitem a [] [(0, int (N ! i))] (as_array e) ds2
        in create_axes N c es (Suc i) (ds3, dims @ [xyz]))"

text \<open>
  Lines 57-76, the body of \<open>if mode == 'w'\<close>.  The \<open>createVariable\<close> of line 59 is the first
  to be given the numeric type, and raises \<open>TypeError\<close> for one the file format does not have.
  The methods below run on a constructed writer, whose type has passed here.
\<close>

definition init_schema :: "ncfile \<Rightarrow> dom_entry list option \<Rightarrow> error + ncfile" where
  "init_schema self domain =
     (let f1 = createDimension ''time'' None (self_f self);
          (t, f2) = createVariable ''time'' (self_dtype self) [''time''] f1;
          f3 = set_collective t True f2
      in if \<not> store_type_ok (self_dtype self) then Inl TypeError
         else
         case domain of
           None \<Rightarrow> Inl TypeError
         | Some [] \<Rightarrow> Inl IndexError
         | Some (e0 # es) \<Rightarrow>
             (case (if is_Array e0 then Inr (e0 # es)
                    else if length (entry_values e0) \<noteq> 2 then Inl AssertionError
                    else synth_coords (self_N self) (length (e0 # es))) of
                Inl err \<Rightarrow> Inl err
              | Inr d \<Rightarrow>
                  (case create_axes (self_N self) (self_dtype self) d 0 (f3, [''time'']) of
                     Inl err \<Rightarrow> Inl err
                   | Inr (f4, dims) \<Rightarrow>
                       Inr (self\<lparr>self_f := sync f4, self_dims := Some dims,
                                 self_nc_t := Some t, self_handles := Some Map.empty\<rparr>))))"

text \<open>
  \<open>NCFile.__init__(ncname, T, domain, clobber, mode)\<close>.  \<open>disk\<close> is the content of the file
  \<open>ncname\<close> before the call.  The base constructor keeps \<open>T\<close> as \<open>self.T\<close>.
\<close>

definition NCFile_init :: "dataset \<Rightarrow> pfft \<Rightarrow> dom_entry list option \<Rightarrow> string \<Rightarrow> error + ncfile" where
  "NCFile_init disk T domain mode =
     (let self = \<lparr>self_f = Dataset mode disk, self_T = T, self_N = T_shape T,
                  self_dtype = T_dtype_char T, self_dims = None, self_nc_t = None,
                  self_handles = None\<rparr>
      in if T_dtype_char T \<notin> set ''fdg'' then Inl AssertionError
         else if mode = ''w'' then init_schema self domain
         else Inr self)"

subsection \<open>Writing a full field\<close>

text \<open>\<open>NCFile._write_group(name, u, it)\<close>\<close>

definition write_group :: "ncfile \<Rightarrow> string \<Rightarrow> ndarray \<Rightarrow> nat \<Rightarrow> ncfile \<times> error option" where
  "write_group self name u it =
     (let s = T_local_slice (self_T self)
      in case self_handles self of
           None \<Rightarrow> (self, Some AttributeError)
         | Some h \<Rightarrow>
             (case (case h name of
                      Some a \<Rightarrow> Inr (self, a)
                    | None \<Rightarrow>
                        (case self_dims self of
                           None \<Rightarrow> Inl AttributeError
                         | Some dims \<Rightarrow>
                             (let (a, f1) = createVariable name (self_dtype self) dims (self_f self)
                              in Inr (self\<lparr>self_f := set_collective a True f1,
                                           self_handles := Some (h(name \<mapsto> a))\<rparr>, a)))) of
                Inl err \<Rightarrow> (self, Some err)
              | Inr (self1, a) \<Rightarrow>
                  if T_ndim (self_T self1) = 3 then
                    (if length s < 3 then (self1, Some IndexError)
                     else (self1\<lparr>self_f :=
                             sync (var_setitem a [int it] [s ! 0, s ! 1, s ! 2] u (self_f self1))\<rparr>,
                           None))
                  else if T_ndim (self_T self1) = 2 then
                    (if length s < 2 then (self1, Some IndexError)
                     else (self1\<lparr>self_f :=
                             sync (var_setitem a [int it] [s ! 0, s ! 1] u (self_f self1))\<rparr>,
                           None))
                  else (self1, Some NotImplementedError)))"

subsection \<open>Writing a slice of a field\<close>

text \<open>
  \<open>np.take(xs, ps)\<close> raises \<open>IndexError\<close> when a position is out of range.
  \<open>np.nonzero([isinstance(x, slice) for x in slices])[0]\<close> lists the positions of the slices.
\<close>

definition np_take :: "'a list \<Rightarrow> nat list \<Rightarrow> error + 'a list" where
  "np_take xs ps =
     (if \<forall>p \<in> set ps. p < length xs then Inr (map ((!) xs) ps) else Inl IndexError)"

definition slice_positions :: "sel list \<Rightarrow> nat list" where
  "slice_positions slices = filter (\<lambda>i. is_Whole (slices ! i)) [0..<length slices]"

text \<open>\<open>NCFile._write_slice_step(name, it, slices, u)\<close>\<close>

definition write_slice_step ::
  "ncfile \<Rightarrow> string \<Rightarrow> nat \<Rightarrow> sel list \<Rightarrow> ndarray \<Rightarrow> ncfile \<times> error option" where
  "write_slice_step self name it slices0 u =
     (let slname = get_slice_name slices0;
          s = T_local_slice (self_T self);
          (slices, inside) = get_local_slices slices0 s;
          sp = slice_positions slices
      in case np_take s sp of
           Inl err \<Rightarrow> (self, Some err)
         | Inr sf \<Rightarrow>
        (case self_dims self of
           None \<Rightarrow> (self, Some AttributeError)
         | Some dims \<Rightarrow>
        (case np_take dims (map Suc sp) of
           Inl err \<Rightarrow> (self, Some err)
         | Inr taken \<Rightarrow>
        (let sdims = ''time'' # taken;
             fname = join ''_'' [name, slname]
         in case self_handles self of
              None \<Rightarrow> (self, Some AttributeError)
            | Some h \<Rightarrow>
           (let (self1, a) =
                  (case h fname of
                     Some a \<Rightarrow> (self, a)
                   | None \<Rightarrow>
                       (let (a, f1) = createVariable fname (self_dtype self) sdims (self_f self);
                            f2 = set_collective a True f1;
                            f3 = setncattr_string a ''slices'' (str_slices slices) f2
                        in (self\<lparr>self_f := f3, self_handles := Some (h(fname \<mapsto> a))\<rparr>, a)))
            in if inside \<and> length sf \<in> {1, 2, 3} then
                 (case getitem u slices of
                    Inl err \<Rightarrow> (self1, Some err)
                  | Inr block \<Rightarrow>
                      (self1\<lparr>self_f := sync (var_setitem a [int it] sf block (self_f self1))\<rparr>,
                       None))
               else (self1\<lparr>self_f := sync (self_f self1)\<rparr>, None))))))"

subsection \<open>The entry points\<close>

text \<open>
  Modelled from the spec: \<open>FileBase.write\<close>, the base dispatch (file\_base.py is not part of
  the sources at hand).  \<open>fields\<close> maps a name to either a full local block or a pair of a
  global slice and a local block; a full block goes to \<open>_write_group\<close>, a pair to
  \<open>_write_slice_step\<close>.  The fields are visited in the order of the mapping, and an exception
  ends the visit.
\<close>

datatype request = FullBlock ndarray | SlicedBlock "sel list" ndarray

fun FileBase_write :: "ncfile \<Rightarrow> nat \<Rightarrow> (string \<times> request) list \<Rightarrow> ncfile \<times> error option" where
  "FileBase_write self it [] = (self, None)"
| "FileBase_write self it ((name, req) # flds) =
     (case (case req of
              FullBlock u \<Rightarrow> write_group self name u it
            | SlicedBlock slices u \<Rightarrow> write_slice_step self name it slices u) of
        (self1, Some err) \<Rightarrow> (self1, Some err)
      | (self1, None) \<Rightarrow> FileBase_write self1 it flds)"

text \<open>\<open>NCFile.write(step, fields)\<close>\<close>

definition NCFile_write :: "ncfile \<Rightarrow> int \<Rightarrow> (string \<times> request) list \<Rightarrow> ncfile \<times> error option" where
  "NCFile_write self step flds =
     (case self_nc_t self of
        None \<Rightarrow> (self, Some AttributeError)
      | Some t \<Rightarrow>
          (let it = var_size (self_f self) t;
               f1 = var_setitem t [int it] [] \<lparr>shape = [], elems = [of_int step]\<rparr> (self_f self)
           in FileBase_write (self\<lparr>self_f := f1\<rparr>) it flds))"

text \<open>\<open>NCFile.read(u, dset, step)\<close>: the new content of \<open>u\<close>.\<close>

definition NCFile_read :: "ncfile \<Rightarrow> ndarray \<Rightarrow> string \<Rightarrow> int \<Rightarrow> error + ndarray" where
  "NCFile_read self u dset step =
     (let s = T_local_slice (self_T self)
      in case dataset_getitem (self_f self) dset of
           Inl err \<Rightarrow> Inl err
         | Inr a \<Rightarrow> assign_all u (var_getitem (self_f self) a [step] s))"

subsection \<open>Observations used by the properties\<close>

text \<open>
  A writer opened with mode \<open>'w'\<close> is consistent: its three attributes are set, the first
  dimension is the unlimited \<open>time\<close>, the time variable spans \<open>time\<close> only, and every cached
  handle is an object allocated by the file, other than the time variable, that the file
  holds under the same name and whose first dimension is \<open>time\<close>.
\<close>

definition consistent :: "ncfile \<Rightarrow> bool" where
  "consistent self \<longleftrightarrow>
     (\<exists>t h dims.
        self_nc_t self = Some t \<and> self_handles self = Some h \<and> self_dims self = Some (''time'' # dims) \<and>
        ds_dims (self_f self) ''time'' = Some None \<and>
        t < ds_next (self_f self) \<and>
        vdims (ds_heap (self_f self) t) = [''time''] \<and>
        (\<forall>n a. h n = Some a \<longrightarrow>
           a < ds_next (self_f self) \<and> a \<noteq> t \<and> ds_vars (self_f self) n = Some a \<and>
           (\<exists>r. vdims (ds_heap (self_f self) a) = ''time'' # r)))"

text \<open>The time axis: the cells of the time variable up to its size.\<close>

definition time_axis :: "ncfile \<Rightarrow> real option list" where
  "time_axis self =
     (case self_nc_t self of
        None \<Rightarrow> []
      | Some t \<Rightarrow>
          map (\<lambda>i. vcells (ds_heap (self_f self) t) [int i]) [0..<var_size (self_f self) t])"

text \<open>
  Successive calls of \<open>write\<close> on one instance.  The instance keeps what a call did to it
  also when the call raised.
\<close>

fun run_writes :: "ncfile \<Rightarrow> (int \<times> (string \<times> request) list) list \<Rightarrow> ncfile" where
  "run_writes self [] = self"
| "run_writes self (c # cs) = run_writes (fst (NCFile_write self (fst c) (snd c))) cs"

text \<open>The coordinate values the file holds under a dimension name.\<close>

definition coord_values :: "ncfile \<Rightarrow> string \<Rightarrow> real option list" where
  "coord_values self name =
     (case ds_vars (self_f self) name of
        None \<Rightarrow> []
      | Some a \<Rightarrow>
          map (\<lambda>i. vcells (ds_heap (self_f self) a) [int i]) [0..<ds_len (self_f self) name])"

text \<open>
  The spec's words ``a uniform grid over a supplied (origin, length) pair'', for comparison
  with \<open>uniform_grid\<close>, which is what the constructor computes.
\<close>

definition spec_uniform_grid :: "real \<Rightarrow> real \<Rightarrow> nat \<Rightarrow> real list" where
  "spec_uniform_grid origin len n = map (\<lambda>i. origin + real i * len / real n) [0..<n]"




text \<open>The attribute \<open>slices\<close> of the variable the file holds under a name.\<close>

definition slices_attr :: "ncfile \<Rightarrow> string \<Rightarrow> string option" where
  "slices_attr self vname =
     (case ds_vars (self_f self) vname of
        None \<Rightarrow> None
      | Some a \<Rightarrow> map_of (vattrs (ds_heap (self_f self) a)) ''slices'')"

text \<open>The name under which \<open>_write_slice_step\<close> creates and caches a slice variable.\<close>

definition slice_variable_name :: "string \<Rightarrow> sel list \<Rightarrow> string" where
  "slice_variable_name name slices = join ''_'' [name, get_slice_name slices]"

subsection \<open>Concrete inputs\<close>

text \<open>
  The spec's example: global shape \<open>(8, 8)\<close>, two workers owning rows \<open>[0, 4)\<close> and \<open>[4, 8)\<close>.
\<close>

definition rows_0_4 :: "range list" where
  "rows_0_4 = [(0, 4), (0, 8)]"

definition rows_4_8 :: "range list" where
  "rows_4_8 = [(4, 8), (0, 8)]"

text \<open>A smaller decomposition: global shape \<open>(2, 2)\<close>, two workers owning one row each.\<close>

definition small_T0 :: pfft where
  "small_T0 = \<lparr>T_shape = [2, 2], T_dtype_char = CHR ''d'', T_local_slice = [(0, 1), (0, 2)],
               T_ndim = 2\<rparr>"

definition small_T1 :: pfft where
  "small_T1 = \<lparr>T_shape = [2, 2], T_dtype_char = CHR ''d'', T_local_slice = [(1, 2), (0, 2)],
               T_ndim = 2\<rparr>"

definition small_domain :: "dom_entry list option" where
  "small_domain = Some [Tuple [0, 2 * pi], Tuple [0, 2 * pi]]"

definition small_writer0 :: ncfile where
  "small_writer0 = projr (NCFile_init empty_dataset small_T0 small_domain ''w'')"

definition small_writer1 :: ncfile where
  "small_writer1 = projr (NCFile_init empty_dataset small_T1 small_domain ''w'')"

definition small_u :: ndarray where
  "small_u = \<lparr>shape = [1, 2], elems = [5, 7]\<rparr>"

text \<open>A one-dimensional decomposition on a single worker.\<close>

definition line_T :: pfft where
  "line_T = \<lparr>T_shape = [2], T_dtype_char = CHR ''d'', T_local_slice = [(0, 2)], T_ndim = 1\<rparr>"

definition line_writer :: ncfile where
  "line_writer = projr (NCFile_init empty_dataset line_T (Some [Tuple [0, 1]]) ''w'')"

definition line_u :: ndarray where
  "line_u = \<lparr>shape = [2], elems = [5, 7]\<rparr>"

section \<open>Properties\<close>

subsection \<open>The slice mapper\<close>

lemma get_local_slices_length: "length (fst (get_local_slices slices s)) = length slices"
  by (induction slices s rule: get_local_slices.induct) (auto split: prod.splits)

lemma get_local_slices_fixed_in:
  "i < length slices \<Longrightarrow> i < length s \<Longrightarrow> slices ! i = Fixed k \<Longrightarrow>
   fst (s ! i) \<le> k \<Longrightarrow> k < snd (s ! i) \<Longrightarrow>
   fst (get_local_slices slices s) ! i = Fixed (k - fst (s ! i))"
proof (induction slices s arbitrary: i rule: get_local_slices.induct)
  case (3 xs r rs)
  then show ?case by (cases i) (auto split: prod.splits)
next
  case (4 k' xs r rs)
  then show ?case by (cases i) (auto split: prod.splits)
qed auto

lemma get_local_slices_inside_iff:
  "snd (get_local_slices slices s) \<longleftrightarrow>
   (\<forall>i k. i < length slices \<and> i < length s \<and> slices ! i = Fixed k \<longrightarrow>
      fst (s ! i) \<le> k \<and> k < snd (s ! i))"
proof (induction slices s rule: get_local_slices.induct)
  case (3 xs r rs)
  then show ?case
    by (auto split: prod.splits nat.splits simp: nth_Cons less_Suc_eq_0_disj)
next
  case (4 k' xs r rs)
  then show ?case
    by (auto split: prod.splits nat.splits simp: nth_Cons less_Suc_eq_0_disj)
qed auto

text \<open>
  Claim C3.  A fixed index \<open>k\<close> on axis \<open>i\<close> becomes the local offset \<open>k - local_start[i]\<close>
  when \<open>local_start[i] \<le> k < local_stop[i]\<close>, and makes \<open>inside\<close> false otherwise.  For the
  global shape \<open>(8, 8)\<close> with rows \<open>[0, 4)\<close> on worker 0 and \<open>[4, 8)\<close> on worker 1, the
  specification \<open>(2, whole)\<close> gives worker 0 \<open>inside = True\<close> with local offset 2 and worker 1
  \<open>inside = False\<close>.
\<close>

theorem slice_mapper_fixed_index:
  assumes "i < length slices" and "i < length s" and "slices ! i = Fixed k"
  shows "(fst (s ! i) \<le> k \<and> k < snd (s ! i) \<longrightarrow>
            fst (get_local_slices slices s) ! i = Fixed (k - fst (s ! i)))
       \<and> (\<not> (fst (s ! i) \<le> k \<and> k < snd (s ! i)) \<longrightarrow> \<not> snd (get_local_slices slices s))
       \<and> get_local_slices [Fixed 2, Whole] rows_0_4 = ([Fixed 2, Whole], True)
       \<and> get_local_slices [Fixed 2, Whole] rows_4_8 = ([Fixed 2, Whole], False)"
proof -
  have a: "fst (s ! i) \<le> k \<and> k < snd (s ! i) \<longrightarrow>
            fst (get_local_slices slices s) ! i = Fixed (k - fst (s ! i))"
    using assms get_local_slices_fixed_in by blast
  have b: "\<not> (fst (s ! i) \<le> k \<and> k < snd (s ! i)) \<longrightarrow> \<not> snd (get_local_slices slices s)"
    using assms get_local_slices_inside_iff [of slices s] by blast
  have c: "get_local_slices [Fixed 2, Whole] rows_0_4 = ([Fixed 2, Whole], True)"
    by (simp add: rows_0_4_def)
  have d: "get_local_slices [Fixed 2, Whole] rows_4_8 = ([Fixed 2, Whole], False)"
    by (simp add: rows_4_8_def)
  from a b c d show ?thesis by blast
qed

theorem slice_mapper_fixed_index_witness:
  "(0::nat) < length [Fixed 6, Whole] \<and> (0::nat) < length rows_4_8 \<and> [Fixed 6, Whole] ! 0 = Fixed 6
   \<and> fst (get_local_slices [Fixed 6, Whole] rows_4_8) ! 0 = Fixed 2
   \<and> \<not> snd (get_local_slices [Fixed 6, Whole] rows_0_4)"
  using slice_mapper_fixed_index [of 0 "[Fixed 6, Whole]" rows_4_8 6]
    slice_mapper_fixed_index [of 0 "[Fixed 6, Whole]" rows_0_4 6]
  by (simp add: rows_4_8_def rows_0_4_def)

lemmas store_defs = createDimension_def createVariable_def set_collective_def setncattr_string_def sync_def var_setitem_def grow_def var_size_def empty_dataset_def Dataset_def

subsection \<open>The domain\<close>

lemma create_axes_fails:
  "length N < i + length d \<Longrightarrow> i \<le> length N \<Longrightarrow> isl (create_axes N c d i p)"
proof (induction d arbitrary: i p)
  case Nil
  then show ?case by simp
next
  case (Cons e es)
  obtain ds dims where p: "p = (ds, dims)" by (cases p)
  show ?case
  proof (cases "3 \<le> i \<or> length N \<le> i \<or> length (entry_values e) \<noteq> N ! i")
    case True
    then show ?thesis by (auto simp: p)
  next
    case False
    have "length N < Suc i + length es" "Suc i \<le> length N" using Cons.prems False by simp_all
    from Cons.IH [OF this] False show ?thesis
      by (simp add: p Let_def split: prod.splits)
  qed
qed

text \<open>
  Claim C7 says that construction fails with \<open>DimensionMismatch\<close> whenever the length of the
  domain differs from the number of axes of the global shape.  The constructor has no such
  check: with the global shape \<open>(2, 2)\<close> and a domain of one entry it succeeds.
\<close>

theorem domain_length_counterexample:
  "length [Tuple [0, 2 * pi]] \<noteq> length (T_shape small_T0)
   \<and> \<not> isl (NCFile_init empty_dataset small_T0 (Some [Tuple [0, 2 * pi]]) ''w'')"
  by (simp add: NCFile_init_def init_schema_def small_T0_def store_defs store_type_ok_def
      synth_coords_def uniform_grid_def as_array_def Let_def)

text \<open>
  Claim C7 as amended.  In write mode, construction fails for every supplied domain that
  has more entries than the global shape has axes: the loops over the domain run into the
  \<open>IndexError\<close> of \<open>N[i]\<close> or the \<open>KeyError\<close> of the axis names, unless an earlier check has
  failed already.
\<close>

theorem longer_domain_rejected:
  assumes "length (T_shape T) < length entries"
  shows "isl (NCFile_init disk T (Some entries) ''w'')"
proof -
  from assms obtain e0 es where entries: "entries = e0 # es" by (cases entries) auto
  have ax: "isl (create_axes (T_shape T) (T_dtype_char T) d 0 p)"
    if "length d = length entries" for d p
    using assms that create_axes_fails [of "T_shape T" 0 d] by simp
  obtain t f2 where cv: "createVariable ''time'' (T_dtype_char T) [''time'']
      (createDimension ''time'' None (Dataset ''w'' disk)) = (t, f2)" by fastforce
  show ?thesis
  proof (cases "T_dtype_char T \<in> set ''fdg'' \<and> store_type_ok (T_dtype_char T)")
    case False
    then show ?thesis
      unfolding NCFile_init_def init_schema_def Let_def
      by (auto split: prod.splits)
  next
    case ok: True
    show ?thesis
    proof (cases "is_Array e0")
      case True
      from ax [of entries "(set_collective t True f2, [''time''])"] obtain e where
        "create_axes (T_shape T) (T_dtype_char T) entries 0 (set_collective t True f2, [''time''])
          = Inl e" by (auto simp: isl_def)
      with True ok cv show ?thesis
        unfolding NCFile_init_def init_schema_def Let_def entries
        by (auto simp del: create_axes.simps)
    next
      case False
      with assms ok cv show ?thesis
        unfolding NCFile_init_def init_schema_def Let_def entries synth_coords_def
        by (auto simp del: create_axes.simps)
    qed
  qed
qed

theorem longer_domain_rejected_witness:
  "length (T_shape line_T) < length [Tuple [0, 1], Tuple [0, 1]]
   \<and> isl (NCFile_init empty_dataset line_T (Some [Tuple [0, 1], Tuple [0, 1]]) ''w'')"
  using longer_domain_rejected [of line_T "[Tuple [0, 1], Tuple [0, 1]]" empty_dataset]
  by (simp add: line_T_def)

lemma line_writer_attrs:
  "self_handles line_writer = Some Map.empty" "self_dims line_writer = Some [''time'', ''x'']"
  "T_ndim (self_T line_writer) = 1" "self_nc_t line_writer = Some 0"
  by (simp_all add: line_writer_def NCFile_init_def init_schema_def line_T_def store_defs
      store_type_ok_def synth_coords_def uniform_grid_def as_array_def Let_def)

subsection \<open>Full-field writes\<close>

text \<open>
  Claim C10.  On a writer opened for writing, a full-field write on a decomposition whose
  number of axes is neither 2 nor 3 raises \<open>NotImplementedError\<close>.  The variable is created
  (when it was not cached) and cached before that, and neither a data assignment nor a
  flush follows.
\<close>

theorem full_write_unsupported_ndim:
  assumes "self_handles self = Some h" and "self_dims self = Some dims"
      and "T_ndim (self_T self) \<noteq> 2" and "T_ndim (self_T self) \<noteq> 3"
  shows "snd (write_group self name u it) = Some NotImplementedError
       \<and> (\<exists>h' a. self_handles (fst (write_group self name u it)) = Some h' \<and> h' name = Some a)
       \<and> ds_log (self_f (fst (write_group self name u it))) =
           ds_log (self_f self) @
             (if h name = None
              then [EvCreateVariable name (self_dtype self) dims,
                    EvSetCollective (ds_next (self_f self)) True]
              else [])"
  using assms
  by (cases "h name") (simp_all add: write_group_def createVariable_def set_collective_def Let_def)

theorem full_write_unsupported_ndim_witness:
  "self_handles line_writer = Some Map.empty \<and> self_dims line_writer = Some [''time'', ''x'']
   \<and> T_ndim (self_T line_writer) \<noteq> 2 \<and> T_ndim (self_T line_writer) \<noteq> 3
   \<and> snd (write_group line_writer ''u'' line_u 0) = Some NotImplementedError"
  using full_write_unsupported_ndim [of line_writer Map.empty "[''time'', ''x'']" "''u''" line_u 0]
  by (simp add: line_writer_attrs)

subsection \<open>The checks of the constructor\<close>

text \<open>
  Claim C8.  Construction fails, with the \<open>AssertionError\<close> of the assertion on
  \<open>dtype.char\<close> (the spec's \<open>UnsupportedDType\<close>), for every numeric type whose character is
  not one of \<open>f\<close>, \<open>d\<close>, \<open>g\<close>.  For these three it passes the check: in a mode other than
  \<open>'w'\<close> it returns the instance, and in mode \<open>'w'\<close> its outcome is that of the schema set-up.
\<close>

theorem dtype_check:
  "(T_dtype_char T \<notin> set ''fdg'' \<longrightarrow> NCFile_init disk T domain mode = Inl AssertionError)
   \<and> (T_dtype_char T \<in> set ''fdg'' \<and> mode \<noteq> ''w'' \<longrightarrow>
        NCFile_init disk T domain mode =
          Inr \<lparr>self_f = disk, self_T = T, self_N = T_shape T, self_dtype = T_dtype_char T,
               self_dims = None, self_nc_t = None, self_handles = None\<rparr>)
   \<and> (T_dtype_char T \<in> set ''fdg'' \<and> mode = ''w'' \<longrightarrow>
        NCFile_init disk T domain mode =
          init_schema \<lparr>self_f = empty_dataset, self_T = T, self_N = T_shape T,
                       self_dtype = T_dtype_char T, self_dims = None, self_nc_t = None,
                       self_handles = None\<rparr> domain)"
  by (simp add: NCFile_init_def Dataset_def Let_def)

theorem dtype_check_witness:
  "T_dtype_char (line_T\<lparr>T_dtype_char := CHR ''i''\<rparr>) \<notin> set ''fdg''
   \<and> NCFile_init empty_dataset (line_T\<lparr>T_dtype_char := CHR ''i''\<rparr>) None ''w'' = Inl AssertionError
   \<and> T_dtype_char line_T \<in> set ''fdg'' \<and> ''r'' \<noteq> ''w''
   \<and> \<not> isl (NCFile_init empty_dataset line_T None ''r'')
   \<and> NCFile_init empty_dataset line_T None ''w'' = Inl TypeError"
  using dtype_check [of "line_T\<lparr>T_dtype_char := CHR ''i''\<rparr>" empty_dataset None "''w''"]
    dtype_check [of line_T empty_dataset None "''r''"]
    dtype_check [of line_T empty_dataset None "''w''"]
  by (simp add: line_T_def init_schema_def Let_def split: prod.splits)

subsection \<open>Sliced writes\<close>

lemma get_local_slices_is_Whole:
  "i < length slices \<Longrightarrow> is_Whole (fst (get_local_slices slices s) ! i) = is_Whole (slices ! i)"
proof (induction slices s arbitrary: i rule: get_local_slices.induct)
  case (3 xs r rs)
  then show ?case by (cases i) (auto split: prod.splits)
next
  case (4 k xs r rs)
  then show ?case by (cases i) (auto split: prod.splits)
qed auto

lemma slice_positions_local:
  "slice_positions (fst (get_local_slices slices s)) = slice_positions slices"
  unfolding slice_positions_def get_local_slices_length
  by (rule filter_cong) (auto simp: get_local_slices_is_Whole)

lemma slice_positions_bound: "p \<in> set (slice_positions slices) \<Longrightarrow> p < length slices"
  by (auto simp: slice_positions_def)

text \<open>The variable of a sliced write: the cached one, or a new one.\<close>

lemma write_slice_step_eq:
  assumes "np_take (T_local_slice (self_T self))
             (slice_positions (fst (get_local_slices slices0 (T_local_slice (self_T self))))) = Inr sf"
      and "self_dims self = Some dims"
      and "np_take dims (map Suc (slice_positions
             (fst (get_local_slices slices0 (T_local_slice (self_T self)))))) = Inr taken"
      and "self_handles self = Some h"
  shows "write_slice_step self name it slices0 u =
     (let slices = fst (get_local_slices slices0 (T_local_slice (self_T self)));
          inside = snd (get_local_slices slices0 (T_local_slice (self_T self)));
          fname = slice_variable_name name slices0;
          self1 = (case h fname of
                     Some a \<Rightarrow> self
                   | None \<Rightarrow>
                       self\<lparr>self_f :=
                              setncattr_string (ds_next (self_f self)) ''slices'' (str_slices slices)
                                (set_collective (ds_next (self_f self)) True
                                  (snd (createVariable fname (self_dtype self) (''time'' # taken)
                                         (self_f self)))),
                            self_handles := Some (h(fname \<mapsto> ds_next (self_f self)))\<rparr>);
          a = (case h fname of Some a \<Rightarrow> a | None \<Rightarrow> ds_next (self_f self))
      in if inside \<and> length sf \<in> {1, 2, 3} then
           (case getitem u slices of
              Inl err \<Rightarrow> (self1, Some err)
            | Inr block \<Rightarrow>
                (self1\<lparr>self_f := sync (var_setitem a [int it] sf block (self_f self1))\<rparr>, None))
         else (self1\<lparr>self_f := sync (self_f self1)\<rparr>, None))"
  using assms
  unfolding write_slice_step_def slice_variable_name_def
  by (cases "get_local_slices slices0 (T_local_slice (self_T self))"; cases "h (join ''_'' [name, get_slice_name slices0])")
     (auto simp: Let_def createVariable_def split: sum.splits simp del: join.simps)

lemma write_slice_step_None:
  assumes "snd (write_slice_step self name it slices0 u) = None"
  obtains sf dims taken h where
    "np_take (T_local_slice (self_T self))
       (slice_positions (fst (get_local_slices slices0 (T_local_slice (self_T self))))) = Inr sf"
    "self_dims self = Some dims"
    "np_take dims (map Suc (slice_positions
       (fst (get_local_slices slices0 (T_local_slice (self_T self)))))) = Inr taken"
    "self_handles self = Some h"
proof -
  let ?sp = "slice_positions (fst (get_local_slices slices0 (T_local_slice (self_T self))))"
  obtain sf where 1: "np_take (T_local_slice (self_T self)) ?sp = Inr sf"
    using assms unfolding write_slice_step_def
    by (cases "np_take (T_local_slice (self_T self)) ?sp")
       (simp_all add: Let_def split: prod.splits del: join.simps)
  obtain dims where 2: "self_dims self = Some dims"
    using assms 1 unfolding write_slice_step_def
    by (cases "self_dims self") (simp_all add: Let_def split: prod.splits del: join.simps)
  obtain taken where 3: "np_take dims (map Suc ?sp) = Inr taken"
    using assms 1 2 unfolding write_slice_step_def
    by (cases "np_take dims (map Suc ?sp)") (simp_all add: Let_def split: prod.splits del: join.simps)
  obtain h where 4: "self_handles self = Some h"
    using assms 1 2 3 unfolding write_slice_step_def
    by (cases "self_handles self") (simp_all add: Let_def split: prod.splits del: join.simps)
  from 1 2 3 4 that show thesis by blast
qed



lemma write_slice_step_handles_eq:
  assumes "np_take (T_local_slice (self_T self))
             (slice_positions (fst (get_local_slices slices0 (T_local_slice (self_T self))))) = Inr sf"
      and "self_dims self = Some dims"
      and "np_take dims (map Suc (slice_positions
             (fst (get_local_slices slices0 (T_local_slice (self_T self)))))) = Inr taken"
      and "self_handles self = Some h"
  shows "\<exists>h'. self_handles (fst (write_slice_step self name it slices0 u)) = Some h'
           \<and> dom h' = insert (slice_variable_name name slices0) (dom h)"
  unfolding write_slice_step_eq [OF assms]
  by (cases "h (slice_variable_name name slices0)")
     (auto simp: Let_def assms(4) split: sum.splits)

text \<open>
  Claim C9.  The name under which a sliced write creates and caches its variable is
  \<open>slice_variable_name name slices\<close>, a function of the field name and the slice
  specification alone: two calls with the same name and specification, on any two writer
  states (any workers, any runs, any step, any data), that return cache their handle under
  the identical name.
\<close>

theorem slice_name_deterministic:
  assumes "snd (write_slice_step self1 name it1 slices u1) = None"
      and "snd (write_slice_step self2 name it2 slices u2) = None"
  shows "\<exists>h1 h1' h2 h2'.
           self_handles self1 = Some h1
         \<and> self_handles (fst (write_slice_step self1 name it1 slices u1)) = Some h1'
         \<and> dom h1' = insert (slice_variable_name name slices) (dom h1)
         \<and> self_handles self2 = Some h2
         \<and> self_handles (fst (write_slice_step self2 name it2 slices u2)) = Some h2'
         \<and> dom h2' = insert (slice_variable_name name slices) (dom h2)"
proof -
  have one: "\<exists>h h'. self_handles self = Some h
         \<and> self_handles (fst (write_slice_step self name it slices u)) = Some h'
         \<and> dom h' = insert (slice_variable_name name slices) (dom h)"
    if "snd (write_slice_step self name it slices u) = None" for self it u
  proof -
    from write_slice_step_None [OF that] obtain sf dims taken h where
      a: "np_take (T_local_slice (self_T self))
            (slice_positions (fst (get_local_slices slices (T_local_slice (self_T self))))) = Inr sf"
         "self_dims self = Some dims"
         "np_take dims (map Suc (slice_positions
            (fst (get_local_slices slices (T_local_slice (self_T self)))))) = Inr taken"
         "self_handles self = Some h" by blast
    from write_slice_step_handles_eq [OF a, of name it u] obtain h' where
      "self_handles (fst (write_slice_step self name it slices u)) = Some h'"
      "dom h' = insert (slice_variable_name name slices) (dom h)" by (elim exE conjE)
    with a(4) show ?thesis by (intro exI conjI)
  qed
  from one [OF assms(1)] obtain h1 h1' where 1:
    "self_handles self1 = Some h1"
    "self_handles (fst (write_slice_step self1 name it1 slices u1)) = Some h1'"
    "dom h1' = insert (slice_variable_name name slices) (dom h1)" by (elim exE conjE)
  from one [OF assms(2)] obtain h2 h2' where 2:
    "self_handles self2 = Some h2"
    "self_handles (fst (write_slice_step self2 name it2 slices u2)) = Some h2'"
    "dom h2' = insert (slice_variable_name name slices) (dom h2)" by (elim exE conjE)
  from 1 2 show ?thesis by (intro exI conjI)
qed

lemma write_slice_step_attr:
  assumes "np_take (T_local_slice (self_T self))
             (slice_positions (fst (get_local_slices slices0 (T_local_slice (self_T self))))) = Inr sf"
      and "self_dims self = Some dims"
      and "np_take dims (map Suc (slice_positions
             (fst (get_local_slices slices0 (T_local_slice (self_T self)))))) = Inr taken"
      and "self_handles self = Some h"
      and "h (slice_variable_name name slices0) = None"
  shows "slices_attr (fst (write_slice_step self name it slices0 u)) (slice_variable_name name slices0)
         = Some (str_slices (fst (get_local_slices slices0 (T_local_slice (self_T self)))))"
  unfolding write_slice_step_eq [OF assms(1-4)]
  by (simp add: Let_def assms(5) slices_attr_def store_defs split: sum.splits)

lemma small_writer1_attrs:
  "self_handles small_writer1 = Some Map.empty"
  "self_dims small_writer1 = Some [''time'', ''x'', ''y'']"
  "self_T small_writer1 = small_T1"
  by (simp_all add: small_writer1_def NCFile_init_def init_schema_def small_T1_def small_domain_def
      store_defs store_type_ok_def synth_coords_def uniform_grid_def as_array_def Let_def)

text \<open>
  Claim C5 says that the attribute \<open>slices\<close> of a new slice variable records the original
  global slice specification.  Line 137 rebinds \<open>slices\<close> to the localised selector before
  line 146 takes its \<open>str\<close>, so the attribute records the local offsets of the creating
  worker: on the worker owning row \<open>[1, 2)\<close>, the specification \<open>(1, whole)\<close> is recorded as
  \<open>[0, slice(None, None, None)]\<close>.
\<close>

theorem slices_attr_records_local_offsets:
  "slices_attr (fst (write_slice_step small_writer1 ''u'' 0 [Fixed 1, Whole] small_u))
     (slice_variable_name ''u'' [Fixed 1, Whole]) = Some ''[0, slice(None, None, None)]''
   \<and> str_slices [Fixed 1, Whole] = ''[1, slice(None, None, None)]''"
proof -
  have gl: "get_local_slices [Fixed 1, Whole] (T_local_slice (self_T small_writer1))
              = ([Fixed 0, Whole], True)"
    by (simp add: small_writer1_attrs small_T1_def)
  have sp: "slice_positions [Fixed 0, Whole] = [1]"
    by (simp add: slice_positions_def upt_rec)
  have 1: "np_take (T_local_slice (self_T small_writer1))
             (slice_positions (fst (get_local_slices [Fixed 1, Whole]
                (T_local_slice (self_T small_writer1))))) = Inr [(0, 2)]"
    unfolding gl fst_conv sp by (simp add: np_take_def small_writer1_attrs small_T1_def)
  have 3: "np_take [''time'', ''x'', ''y''] (map Suc (slice_positions
             (fst (get_local_slices [Fixed 1, Whole] (T_local_slice (self_T small_writer1))))))
           = Inr [''y'']"
    unfolding gl fst_conv sp by (simp add: np_take_def)
  have a: "slices_attr (fst (write_slice_step small_writer1 ''u'' 0 [Fixed 1, Whole] small_u))
     (slice_variable_name ''u'' [Fixed 1, Whole]) = Some (str_slices [Fixed 0, Whole])"
    using write_slice_step_attr [OF 1 small_writer1_attrs(2) 3 small_writer1_attrs(1), of "''u''" 0 small_u]
    unfolding gl fst_conv by simp
  have b: "str_slices [Fixed 0, Whole] = ''[0, slice(None, None, None)]''"
    by code_simp
  have c: "str_slices [Fixed 1, Whole] = ''[1, slice(None, None, None)]''"
    by code_simp
  from a b c show ?thesis by (simp only:)
qed

lemma np_take_local:
  assumes "length s = length slices0"
  shows "np_take s (slice_positions (fst (get_local_slices slices0 s)))
         = Inr (map ((!) s) (slice_positions slices0))"
  using assms slice_positions_bound [of _ slices0]
  by (auto simp: np_take_def slice_positions_local)

lemma np_take_dims:
  assumes "length dims = Suc (length slices0)"
  shows "np_take dims (map Suc (slice_positions (fst (get_local_slices slices0 s))))
         = Inr (map (\<lambda>p. dims ! Suc p) (slice_positions slices0))"
  using assms slice_positions_bound [of _ slices0]
  by (auto simp: np_take_def slice_positions_local)





lemma write_slice_step_returns:
  assumes "np_take (T_local_slice (self_T self))
             (slice_positions (fst (get_local_slices slices0 (T_local_slice (self_T self))))) = Inr sf"
      and "self_dims self = Some dims"
      and "np_take dims (map Suc (slice_positions
             (fst (get_local_slices slices0 (T_local_slice (self_T self)))))) = Inr taken"
      and "self_handles self = Some h"
      and "index_ok (shape u) (fst (get_local_slices slices0 (T_local_slice (self_T self))))"
  shows "snd (write_slice_step self name it slices0 u) = None"
  unfolding write_slice_step_eq [OF assms(1-4)]
  using assms(5)
  by (cases "h (slice_variable_name name slices0)"; simp add: Let_def getitem_def)

lemma write_slice_step_returns_wf:
  assumes "self_dims self = Some dims" and "self_handles self = Some h"
      and "length (T_local_slice (self_T self)) = length slices0"
      and "length dims = Suc (length slices0)"
      and "index_ok (shape u) (fst (get_local_slices slices0 (T_local_slice (self_T self))))"
  shows "snd (write_slice_step self name it slices0 u) = None"
  using write_slice_step_returns [OF np_take_local [OF assms(3)] assms(1)
      np_take_dims [OF assms(4)] assms(2) assms(5)] .



lemma small_writer0_attrs:
  "self_handles small_writer0 = Some Map.empty"
  "self_dims small_writer0 = Some [''time'', ''x'', ''y'']"
  "self_T small_writer0 = small_T0"
  by (simp_all add: small_writer0_def NCFile_init_def init_schema_def small_T0_def small_domain_def
      store_defs store_type_ok_def synth_coords_def uniform_grid_def as_array_def Let_def)


theorem slice_name_deterministic_witness:
  "snd (write_slice_step small_writer0 ''u'' 0 [Fixed 0, Whole] small_u) = None
   \<and> snd (write_slice_step small_writer1 ''u'' 5 [Fixed 0, Whole] small_u) = None
   \<and> (\<exists>h1 h1' h2 h2'.
           self_handles small_writer0 = Some h1
         \<and> self_handles (fst (write_slice_step small_writer0 ''u'' 0 [Fixed 0, Whole] small_u)) = Some h1'
         \<and> dom h1' = insert (slice_variable_name ''u'' [Fixed 0, Whole]) (dom h1)
         \<and> self_handles small_writer1 = Some h2
         \<and> self_handles (fst (write_slice_step small_writer1 ''u'' 5 [Fixed 0, Whole] small_u)) = Some h2'
         \<and> dom h2' = insert (slice_variable_name ''u'' [Fixed 0, Whole]) (dom h2))"
proof -
  have r0: "snd (write_slice_step small_writer0 ''u'' 0 [Fixed 0, Whole] small_u) = None"
    by (rule write_slice_step_returns_wf [where dims = "[''time'', ''x'', ''y'']" and h = Map.empty])
       (simp_all add: small_writer0_attrs small_T0_def small_u_def)
  have r1: "snd (write_slice_step small_writer1 ''u'' 5 [Fixed 0, Whole] small_u) = None"
    by (rule write_slice_step_returns_wf [where dims = "[''time'', ''x'', ''y'']" and h = Map.empty])
       (simp_all add: small_writer1_attrs small_T1_def small_u_def)
  from r0 r1 slice_name_deterministic [OF r0 r1] show ?thesis by (intro conjI)
qed

end
